theory Spec2Isabelle
  imports Main "HOL-Library.Sublist" "HOL-Library.Finite_Map"
begin

section \<open>The sitemap hooks of the documentation site's configuration\<close>

text \<open>
  The only procedural code of the repository is in \<^verbatim>\<open>docs/.vitepress/config.mts\<close>: the
  module-level array \<^verbatim>\<open>links\<close>, the hook \<^verbatim>\<open>transformPageData\<close> that pushes one record
  per rendered page, and the hook \<^verbatim>\<open>buildEnd\<close> that writes every record to a
  \<^verbatim>\<open>SitemapStream\<close> piped into the file \<^verbatim>\<open>sitemap.xml\<close> of the output directory.
\<close>

subsection \<open>Data\<close>

text \<open>
  \<^verbatim>\<open>const links: { url: string, lastmod: number | undefined }[] = []\<close>.
  The time stamp is only copied, never computed with, so the number is kept as an
  integer (milliseconds); \<^verbatim>\<open>undefined\<close> is \<open>None\<close>.
\<close>

record link =
  url :: string
  lastmod :: "int option"

text \<open>The two fields of the page data that the hook reads.\<close>

record pageData =
  relativePath :: string
  lastUpdated :: "int option"

subsection \<open>The sitemap stream and the output file\<close>

text \<open>
  Modelled from the spec: the class \<^verbatim>\<open>SitemapStream\<close> comes from the package
  \<^verbatim>\<open>sitemap\<close>, and \<^verbatim>\<open>createWriteStream\<close> and \<^verbatim>\<open>resolve\<close> from Node; none of them is
  part of the repository. The spec describes the document as a root urlset element
  with one url element per record, each with a loc (the host base URL followed by the
  record's url) and an optional lastmod. A url element is a record of these two
  fields; a document is the list of url elements written so far together with a flag
  that says whether the root element has been closed, which happens when the stream is
  ended.
\<close>

record sitemap_url =
  loc :: string
  lastmod_field :: "int option"

record sitemap_doc =
  urls :: "sitemap_url list"
  closed :: bool

record SitemapStream =
  hostname :: string
  doc :: sitemap_doc

text \<open>Modelled from the spec: \<^verbatim>\<open>new SitemapStream({ hostname })\<close>, nothing written yet.\<close>

definition new_SitemapStream :: "string \<Rightarrow> SitemapStream" where
  "new_SitemapStream h = \<lparr>hostname = h, doc = \<lparr>urls = [], closed = False\<rparr>\<rparr>"

text \<open>
  Modelled from the spec: the url element of one record, ``concatenate hostBaseUrl and
  url to form an absolute URL; emit one sitemap entry per record carrying that URL and,
  if present, the lastModified value''.
\<close>

definition sitemap_entry :: "string \<Rightarrow> link \<Rightarrow> sitemap_url" where
  "sitemap_entry h l = \<lparr>loc = h @ url l, lastmod_field = lastmod l\<rparr>"

text \<open>Modelled from the spec: \<^verbatim>\<open>sitemap.write(link)\<close> adds one url element at the end.\<close>

definition sitemap_write :: "link \<Rightarrow> SitemapStream \<Rightarrow> SitemapStream" where
  "sitemap_write l s = s\<lparr>doc := (doc s)\<lparr>urls := urls (doc s) @ [sitemap_entry (hostname s) l]\<rparr>\<rparr>"

text \<open>Modelled from the spec: \<^verbatim>\<open>sitemap.end()\<close> closes the root element.\<close>

definition end_stream :: "SitemapStream \<Rightarrow> SitemapStream" where
  "end_stream s = s\<lparr>doc := (doc s)\<lparr>closed := True\<rparr>\<rparr>"

text \<open>
  Modelled from the spec: \<^verbatim>\<open>resolve(outDir, 'sitemap.xml')\<close> is kept symbolic, the pair of
  the directory and the file name standing for the absolute path that Node computes.
\<close>

type_synonym path = "string \<times> string"

definition resolve :: "string \<Rightarrow> string \<Rightarrow> path" where
  "resolve dir name = (dir, name)"

subsection \<open>The state of a build\<close>

text \<open>
  The module-level array \<^verbatim>\<open>links\<close> and the files of the disk. The array is the only
  state of the module; the disk is what \<^verbatim>\<open>buildEnd\<close> acts on.
\<close>

record build =
  links :: "link list"
  files :: "(path, sitemap_doc) fmap"

text \<open>\<^verbatim>\<open>const links = []\<close>: a fresh process starts with the empty array.\<close>

definition start :: "(path, sitemap_doc) fmap \<Rightarrow> build" where
  "start fs = \<lparr>links = [], files = fs\<rparr>"

subsection \<open>The two regular-expression replacements\<close>

text \<open>
  \<^verbatim>\<open>s.replace(/lit$/, rep)\<close> for a literal \<open>lit\<close>: the search runs over the start
  positions from left to right and succeeds at the first one where the literal is
  followed by the end of the input, that is where the rest of the input is the literal
  itself. The match is replaced by \<open>rep\<close>; without a match the string is returned as it
  is. (Neither replacement string of the source contains a dollar sign, so \<open>rep\<close> is
  inserted literally.)
\<close>

fun replace_suffix :: "string \<Rightarrow> string \<Rightarrow> string \<Rightarrow> string" where
  "replace_suffix lit rep [] = (if [] = lit then rep else [])"
| "replace_suffix lit rep (c # cs) =
     (if c # cs = lit then rep else c # replace_suffix lit rep cs)"

text \<open>
  \<^verbatim>\<open>pageData.relativePath.replace(/index\.md$/, '').replace(/\.md$/, '.html')\<close>
\<close>

definition page_url :: "string \<Rightarrow> string" where
  "page_url p = replace_suffix ''.md'' ''.html'' (replace_suffix ''index.md'' '''' p)"

subsection \<open>The hooks\<close>

text \<open>
  \<^verbatim>\<open>
  transformPageData(pageData) {
    links.push({
      url: pageData.relativePath.replace(/index\.md$/, '').replace(/\.md$/, '.html'),
      lastmod: pageData.lastUpdated
    })
  }
  \<close>
  The body has no guard and no throw: every call pushes one record.
\<close>

definition transformPageData :: "pageData \<Rightarrow> build \<Rightarrow> build" where
  "transformPageData pd b =
     b\<lparr>links := links b @ [\<lparr>url = page_url (relativePath pd), lastmod = lastUpdated pd\<rparr>]\<rparr>"

text \<open>
  \<^verbatim>\<open>
  buildEnd: async ({ outDir }) => {
    const sitemap = new SitemapStream({ hostname: 'https://yourdomain.com/' })
    const writeStream = createWriteStream(resolve(outDir, 'sitemap.xml'))
    sitemap.pipe(writeStream)
    links.forEach((link) => sitemap.write(link))
    sitemap.end()
    await new Promise<void>((resolve) => writeStream.on('finish', () => resolve()))
  }
  \<close>
  The model is the state in which the awaited promise resolves, that is after the
  write stream has finished: the file at the resolved path then holds what was piped
  into it, replacing what was there before. The write stream is identified with the
  path it was opened on. The runs in which the write stream reports an error instead
  are those of \<open>buildEnd_run\<close> below. The array is read by \<^verbatim>\<open>forEach\<close> and never assigned; the stream is taken not to
  change the records handed to it.
\<close>

definition buildEnd :: "string \<Rightarrow> build \<Rightarrow> build" where
  "buildEnd outDir b =
     (let sitemap = new_SitemapStream ''https://yourdomain.com/'';
          writeStream = resolve outDir ''sitemap.xml'';
          sitemap = fold sitemap_write (links b) sitemap;
          sitemap = end_stream sitemap
      in b\<lparr>files := fmupd writeStream (doc sitemap) (files b)\<rparr>)"

subsection \<open>Runs in which the write stream fails\<close>




text \<open>
  Modelled from the spec: the site generator, which is not part of the repository,
  calls \<^verbatim>\<open>transformPageData\<close> once for every page it renders, one page after the other.
\<close>

definition renderPages :: "pageData list \<Rightarrow> build \<Rightarrow> build" where
  "renderPages ps b = fold transformPageData ps b"

section \<open>Properties\<close>

subsection \<open>The replacements\<close>

lemma replace_suffix_append: "replace_suffix lit rep (s @ lit) = s @ rep"
proof (induction s)
  case Nil
  show ?case by (cases lit) simp_all
next
  case (Cons c s)
  have "c # s @ lit \<noteq> lit"
  proof
    assume "c # s @ lit = lit"
    then have "length (c # s @ lit) = length lit" by simp
    then show False by simp
  qed
  with Cons show ?case by simp
qed

lemma replace_suffix_unchanged: "\<not> suffix lit s \<Longrightarrow> replace_suffix lit rep s = s"
proof (induction s)
  case Nil
  then show ?case by auto
next
  case (Cons c s)
  from Cons.prems have "c # s \<noteq> lit" and "\<not> suffix lit s"
    by (auto simp: suffix_Cons)
  with Cons.IH show ?case by simp
qed

lemma page_url_index: "page_url (s @ ''index.md'') = replace_suffix ''.md'' ''.html'' s"
proof -
  have "replace_suffix ''index.md'' [] (s @ ''index.md'') = s @ []"
    by (rule replace_suffix_append)
  then show ?thesis by (simp add: page_url_def)
qed

lemma page_url_md:
  assumes "\<not> suffix ''index'' s"
  shows "page_url (s @ ''.md'') = s @ ''.html''"
proof -
  have "suffix ''index.md'' (s @ ''.md'') = suffix ''index'' s"
    using same_suffix_suffix [of "''index''" "''.md''" s] by simp
  with assms have "replace_suffix ''index.md'' [] (s @ ''.md'') = s @ ''.md''"
    by (simp add: replace_suffix_unchanged)
  then show ?thesis by (simp add: page_url_def replace_suffix_append)
qed

subsection \<open>Collection and emission\<close>

lemma links_renderPages:
  "links (renderPages ps b) =
     links b @ map (\<lambda>pd. \<lparr>url = page_url (relativePath pd), lastmod = lastUpdated pd\<rparr>) ps"
  unfolding renderPages_def
  by (induction ps arbitrary: b) (simp_all add: transformPageData_def)

lemma files_renderPages: "files (renderPages ps b) = files b"
  unfolding renderPages_def
  by (induction ps arbitrary: b) (simp_all add: transformPageData_def)

lemma fold_write:
  "fold sitemap_write ls s =
     s\<lparr>doc := (doc s)\<lparr>urls := urls (doc s) @ map (sitemap_entry (hostname s)) ls\<rparr>\<rparr>"
  by (induction ls arbitrary: s) (simp_all add: sitemap_write_def)

lemma buildEnd_eq:
  "buildEnd outDir b =
     b\<lparr>files := fmupd (resolve outDir ''sitemap.xml'')
          \<lparr>urls = map (sitemap_entry ''https://yourdomain.com/'') (links b), closed = True\<rparr>
          (files b)\<rparr>"
  by (simp add: buildEnd_def Let_def fold_write new_SitemapStream_def end_stream_def)

lemma buildEnd_sitemap:
  "fmlookup (files (buildEnd outDir b)) (resolve outDir ''sitemap.xml'') =
     Some \<lparr>urls = map (sitemap_entry ''https://yourdomain.com/'') (links b), closed = True\<rparr>"
  by (simp add: buildEnd_eq)


subsection \<open>The claims\<close>

text \<open>
  C1. The emitted sitemap has exactly one url entry per collected record, the entries
  are in the order in which the records were collected, and the absolute URL of each
  entry is the host base URL followed by the record's url. This holds for every record
  list, and so for the list that a build collects from its pages: the records of the
  pages in the order of rendering.
\<close>

theorem sitemap_one_entry_per_record:
  "(\<exists>d. fmlookup (files (buildEnd outDir b)) (resolve outDir ''sitemap.xml'') = Some d
        \<and> closed d
        \<and> length (urls d) = length (links b)
        \<and> map loc (urls d) = map (\<lambda>l. ''https://yourdomain.com/'' @ url l) (links b)
        \<and> map lastmod_field (urls d) = map lastmod (links b))
   \<and> (\<exists>d. fmlookup (files (buildEnd outDir (renderPages ps (start fs))))
            (resolve outDir ''sitemap.xml'') = Some d
        \<and> length (urls d) = length ps
        \<and> map loc (urls d) =
            map (\<lambda>pd. ''https://yourdomain.com/'' @ page_url (relativePath pd)) ps)"
  by (simp add: buildEnd_sitemap links_renderPages start_def sitemap_entry_def comp_def)




text \<open>
  C3, as amended. The url of a record is the page path after the two replacements in
  sequence. A path ending in \<^verbatim>\<open>index.md\<close> loses that suffix, and the result is the rest
  of the path where the rest does not itself end in \<^verbatim>\<open>.md\<close>; where it does, that
  \<^verbatim>\<open>.md\<close> becomes \<^verbatim>\<open>.html\<close>. Any other path ending in \<^verbatim>\<open>.md\<close> has the \<^verbatim>\<open>.md\<close> replaced
  by \<^verbatim>\<open>.html\<close>.
\<close>

theorem page_url_normalised:
  "(\<not> suffix ''.md'' s \<longrightarrow> page_url (s @ ''index.md'') = s)
   \<and> page_url (t @ ''.mdindex.md'') = t @ ''.html''
   \<and> (\<not> suffix ''index'' u \<longrightarrow> page_url (u @ ''.md'') = u @ ''.html'')"
proof -
  have "page_url (t @ ''.md'' @ ''index.md'') = replace_suffix ''.md'' ''.html'' (t @ ''.md'')"
    using page_url_index [of "t @ ''.md''"] by simp
  then have "page_url (t @ ''.mdindex.md'') = t @ ''.html''"
    by (simp add: replace_suffix_append)
  then show ?thesis
    by (simp add: page_url_index page_url_md replace_suffix_unchanged)
qed

theorem page_url_normalised_witness:
  "\<not> suffix ''.md'' ''guide/'' \<and> page_url ''guide/index.md'' = ''guide/''
   \<and> page_url ''notes.mdindex.md'' = ''notes.html''
   \<and> \<not> suffix ''index'' ''guide/intro'' \<and> page_url ''guide/intro.md'' = ''guide/intro.html''"
  using page_url_normalised [of "''guide/''" "''notes''" "''guide/intro''"]
  by (simp add: suffix_Cons)

text \<open>
  C3, as stated, fails: the path \<^verbatim>\<open>a.mdindex.md\<close> ends in \<^verbatim>\<open>index.md\<close>, and its url is
  not the path without that suffix, \<^verbatim>\<open>a.md\<close>, but \<^verbatim>\<open>a.html\<close>.
\<close>

theorem page_url_index_counterexample:
  "page_url (''a.md'' @ ''index.md'') = ''a.html'' \<and> page_url (''a.md'' @ ''index.md'') \<noteq> ''a.md''"
  by (simp add: page_url_def)

text \<open>
  C4, as amended. A call with the empty page path is not rejected: it appends the
  record whose url is the empty string, with the page's time stamp, and changes
  nothing else.
\<close>

theorem empty_path_recorded:
  assumes "relativePath pd = []"
  shows "transformPageData pd b = b\<lparr>links := links b @ [\<lparr>url = [], lastmod = lastUpdated pd\<rparr>]\<rparr>"
  using assms by (simp add: transformPageData_def page_url_def)

theorem empty_path_recorded_witness:
  "relativePath \<lparr>relativePath = [], lastUpdated = Some 1700000000\<rparr> = []
   \<and> transformPageData \<lparr>relativePath = [], lastUpdated = Some 1700000000\<rparr> (start fmempty) =
       \<lparr>links = [\<lparr>url = [], lastmod = Some 1700000000\<rparr>], files = fmempty\<rparr>"
  using empty_path_recorded
    [of "\<lparr>relativePath = [], lastUpdated = Some 1700000000\<rparr>" "start fmempty"]
  by (simp add: start_def)

text \<open>
  C4, as stated, fails: the collector called with the empty path at the start of a
  build leaves the record with the empty url in the array.
\<close>

theorem empty_path_counterexample:
  "links (transformPageData \<lparr>relativePath = [], lastUpdated = None\<rparr> (start fmempty)) =
     [\<lparr>url = [], lastmod = None\<rparr>]"
  by (simp add: transformPageData_def page_url_def start_def)

text \<open>
  C5. For a record without a time stamp, the url entry at the same position of the
  emitted sitemap, which carries the record's URL, has no lastmod field.
\<close>

theorem absent_lastmod_omitted:
  assumes "i < length (links b)" and "lastmod (links b ! i) = None"
  shows "\<exists>d. fmlookup (files (buildEnd outDir b)) (resolve outDir ''sitemap.xml'') = Some d
           \<and> i < length (urls d)
           \<and> loc (urls d ! i) = ''https://yourdomain.com/'' @ url (links b ! i)
           \<and> lastmod_field (urls d ! i) = None"
  using assms by (simp add: buildEnd_sitemap sitemap_entry_def)

theorem absent_lastmod_omitted_witness:
  "1 < length (links \<lparr>links = [\<lparr>url = ''guide/intro.html'', lastmod = Some 1700000000\<rparr>,
                               \<lparr>url = ''index.html'', lastmod = None\<rparr>], files = fmempty\<rparr>)
   \<and> lastmod (links \<lparr>links = [\<lparr>url = ''guide/intro.html'', lastmod = Some 1700000000\<rparr>,
                              \<lparr>url = ''index.html'', lastmod = None\<rparr>], files = fmempty\<rparr> ! 1) = None
   \<and> fmlookup (files (buildEnd ''dist''
         \<lparr>links = [\<lparr>url = ''guide/intro.html'', lastmod = Some 1700000000\<rparr>,
                   \<lparr>url = ''index.html'', lastmod = None\<rparr>], files = fmempty\<rparr>))
       (resolve ''dist'' ''sitemap.xml'') =
     Some \<lparr>urls = [\<lparr>loc = ''https://yourdomain.com/guide/intro.html'',
                     lastmod_field = Some 1700000000\<rparr>,
                   \<lparr>loc = ''https://yourdomain.com/index.html'', lastmod_field = None\<rparr>],
           closed = True\<rparr>"
  using absent_lastmod_omitted
    [of 1 "\<lparr>links = [\<lparr>url = ''guide/intro.html'', lastmod = Some 1700000000\<rparr>,
                     \<lparr>url = ''index.html'', lastmod = None\<rparr>], files = fmempty\<rparr>" "''dist''"]
  by (simp add: buildEnd_sitemap sitemap_entry_def)

text \<open>
  C6. The emitted file depends on the record list and the output directory only: two
  emissions from states with the same records leave the same document at the same
  path, whatever the disk held before, with the entries in the order of the list. A
  second emission after the first changes nothing any more.
\<close>

theorem emission_deterministic:
  assumes "links b1 = links b2"
  shows "fmlookup (files (buildEnd outDir b1)) (resolve outDir ''sitemap.xml'') =
           fmlookup (files (buildEnd outDir b2)) (resolve outDir ''sitemap.xml'')
         \<and> fmlookup (files (buildEnd outDir b1)) (resolve outDir ''sitemap.xml'') =
             Some \<lparr>urls = map (sitemap_entry ''https://yourdomain.com/'') (links b1),
                   closed = True\<rparr>
         \<and> buildEnd outDir (buildEnd outDir b1) = buildEnd outDir b1"
  using assms by (simp add: buildEnd_eq)

theorem emission_deterministic_witness:
  "links \<lparr>links = [\<lparr>url = ''index.html'', lastmod = None\<rparr>], files = fmempty\<rparr> =
     links \<lparr>links = [\<lparr>url = ''index.html'', lastmod = None\<rparr>],
            files = fmupd (resolve ''dist'' ''sitemap.xml'') \<lparr>urls = [], closed = False\<rparr> fmempty\<rparr>
   \<and> fmlookup (files (buildEnd ''dist''
         \<lparr>links = [\<lparr>url = ''index.html'', lastmod = None\<rparr>], files = fmempty\<rparr>))
       (resolve ''dist'' ''sitemap.xml'') =
     fmlookup (files (buildEnd ''dist''
         \<lparr>links = [\<lparr>url = ''index.html'', lastmod = None\<rparr>],
          files = fmupd (resolve ''dist'' ''sitemap.xml'') \<lparr>urls = [], closed = False\<rparr> fmempty\<rparr>))
       (resolve ''dist'' ''sitemap.xml'')"
  using emission_deterministic
    [of "\<lparr>links = [\<lparr>url = ''index.html'', lastmod = None\<rparr>], files = fmempty\<rparr>"
        "\<lparr>links = [\<lparr>url = ''index.html'', lastmod = None\<rparr>],
          files = fmupd (resolve ''dist'' ''sitemap.xml'') \<lparr>urls = [], closed = False\<rparr> fmempty\<rparr>"
        "''dist''"]
  by simp

text \<open>C8. The emission leaves the record list as it was.\<close>

theorem emission_keeps_records: "links (buildEnd outDir b) = links b"
  by (simp add: buildEnd_eq)

text \<open>
  C9. Two calls of the collector with the same page path append two records with the
  same url, and the emitted sitemap ends with the two url entries of these records,
  which carry the same URL.
\<close>

theorem no_deduplication:
  assumes "relativePath pd2 = relativePath pd1"
  shows "links (transformPageData pd2 (transformPageData pd1 b)) =
           links b @ [\<lparr>url = page_url (relativePath pd1), lastmod = lastUpdated pd1\<rparr>,
                      \<lparr>url = page_url (relativePath pd1), lastmod = lastUpdated pd2\<rparr>]
         \<and> (\<exists>d. fmlookup (files (buildEnd outDir (transformPageData pd2 (transformPageData pd1 b))))
                  (resolve outDir ''sitemap.xml'') = Some d
              \<and> urls d =
                  map (sitemap_entry ''https://yourdomain.com/'') (links b) @
                  [\<lparr>loc = ''https://yourdomain.com/'' @ page_url (relativePath pd1),
                    lastmod_field = lastUpdated pd1\<rparr>,
                   \<lparr>loc = ''https://yourdomain.com/'' @ page_url (relativePath pd1),
                    lastmod_field = lastUpdated pd2\<rparr>])"
  using assms by (simp add: buildEnd_sitemap transformPageData_def sitemap_entry_def)

theorem no_deduplication_witness:
  "relativePath \<lparr>relativePath = ''guide/intro.md'', lastUpdated = None\<rparr> =
     relativePath \<lparr>relativePath = ''guide/intro.md'', lastUpdated = None\<rparr>
   \<and> links (transformPageData \<lparr>relativePath = ''guide/intro.md'', lastUpdated = None\<rparr>
        (transformPageData \<lparr>relativePath = ''guide/intro.md'', lastUpdated = None\<rparr>
          (start fmempty))) =
       [\<lparr>url = ''guide/intro.html'', lastmod = None\<rparr>,
        \<lparr>url = ''guide/intro.html'', lastmod = None\<rparr>]"
  using no_deduplication
    [of "\<lparr>relativePath = ''guide/intro.md'', lastUpdated = None\<rparr>"
        "\<lparr>relativePath = ''guide/intro.md'', lastUpdated = None\<rparr>" "start fmempty" "''dist''"]
  by (simp add: start_def page_url_def)

text \<open>
  C10. The elision of the index suffix needs no path separator before it: whatever
  precedes a final \<^verbatim>\<open>index.md\<close>, the first replacement strips all of it, so that the url
  is computed from what precedes it and is exactly that where it does not end in
  \<^verbatim>\<open>.md\<close>. The path \<^verbatim>\<open>appindex.md\<close> gives \<^verbatim>\<open>app\<close>, not \<^verbatim>\<open>appindex.html\<close>.
\<close>

theorem index_elision_without_separator:
  "replace_suffix ''index.md'' [] (s @ ''index.md'') = s
   \<and> page_url (s @ ''index.md'') = replace_suffix ''.md'' ''.html'' s
   \<and> (\<not> suffix ''.md'' s \<longrightarrow> page_url (s @ ''index.md'') = s)
   \<and> page_url ''appindex.md'' = ''app''
   \<and> page_url ''appindex.md'' \<noteq> ''appindex.html''"
proof -
  have "replace_suffix ''index.md'' [] (s @ ''index.md'') = s @ []"
    by (rule replace_suffix_append)
  moreover have "page_url ''appindex.md'' = ''app''"
    by (simp add: page_url_def)
  ultimately show ?thesis
    by (simp add: page_url_index replace_suffix_unchanged)
qed

theorem index_elision_without_separator_witness:
  "\<not> suffix ''.md'' ''guide/app'' \<and> page_url ''guide/appindex.md'' = ''guide/app''"
  using index_elision_without_separator [of "''guide/app''"]
  by (simp add: suffix_Cons)

end
